theory Spec2Isabelle
  imports Complex_Main "HOL-Library.Multiset" "HOL-Library.List_Lexorder"
begin

section \<open>Centerline reconstruction and curve emission (src/utils/stl_processor.py)\<close>

text \<open>
  The pipeline of \<^verbatim>\<open>stl_processor.py\<close> is embedded function by function.
  Conventions of the embedding:
  \<^item> A float64 is a \<^typ>\<open>real\<close>: arithmetic is exact, rounding error is not modelled.
    The non-finite floats (\<^verbatim>\<open>nan\<close>, \<^verbatim>\<open>inf\<close>) that numpy returns from a division by zero
    or from the median of an empty array are the value \<open>None\<close> of an option type; numpy
    raises nothing there (it prints a RuntimeWarning).
  \<^item> A 3-component numpy vector is a triple; a two-dimensional array is the list of its rows.
  \<^item> Every exception the code can raise is a value \<open>Inl e\<close> of a sum type.
  \<^item> Library routines whose results are not determined by the repository (the random
    permutation drawn by \<^verbatim>\<open>np.random.choice\<close>, \<^verbatim>\<open>cpu_count\<close>, the principal axes,
    the tie order of \<^verbatim>\<open>np.argsort\<close>, the spline fit and its evaluation) are parameters
    of the functions that call them.
\<close>

text \<open>
  The exceptions. ValueError, TypeError, IndexError and ZeroDivisionError are the ones
  the code and the library checks modelled below raise; LibraryError is any failure of a
  library routine that is a parameter. ConfigurationError and InsufficientDataError are
  the names the specification uses: no function of the code raises them.
\<close>

datatype error =
    ValueError
  | TypeError
  | IndexError
  | ZeroDivisionError
  | LibraryError
  | ConfigurationError
  | InsufficientDataError

type_synonym vec3 = "real \<times> real \<times> real"

subsection \<open>Python's range with a step\<close>

text \<open>
  \<^verbatim>\<open>range(start, stop, step)\<close> for a positive step: the values \<open>start + k * step\<close> below
  \<open>stop\<close>. A zero step raises ValueError; the callers below test for it.
\<close>

definition range_step :: "nat \<Rightarrow> nat \<Rightarrow> nat \<Rightarrow> nat list" where
  "range_step start stop step =
     map (\<lambda>k. start + k * step) [0 ..< (stop - start + step - 1) div step]"

subsection \<open>create_svg\<close>

text \<open>
  The drawing that \<^verbatim>\<open>create_svg\<close> builds: the declared size in millimetres, the stroke
  width, and the path as a list of commands. \<^verbatim>\<open>M x,y\<close> is \<open>MoveTo\<close>,
  \<^verbatim>\<open>C x1,y1 x2,y2 x3,y3\<close> is \<open>CurveTo\<close>.
\<close>

datatype path_command =
    MoveTo "real \<times> real"
  | CurveTo "real \<times> real" "real \<times> real" "real \<times> real"

record drawing =
  size_w :: real
  size_h :: real
  stroke_width :: real
  path :: "path_command list"

definition col_x :: "vec3 list \<Rightarrow> real list" where
  "col_x centerline = map (\<lambda>(x, y, z). x) centerline"

definition col_y :: "vec3 list \<Rightarrow> real list" where
  "col_y centerline = map (\<lambda>(x, y, z). y) centerline"

definition svg_width :: "vec3 list \<Rightarrow> real \<Rightarrow> real" where
  "svg_width centerline scale =
     (Max (set (col_x centerline)) - Min (set (col_x centerline))) * scale"

definition svg_height :: "vec3 list \<Rightarrow> real \<Rightarrow> real" where
  "svg_height centerline scale =
     (Max (set (col_y centerline)) - Min (set (col_y centerline))) * scale"

definition svg_padding :: "vec3 list \<Rightarrow> real \<Rightarrow> real" where
  "svg_padding centerline scale =
     max (svg_width centerline scale) (svg_height centerline scale) * (1 / 10)"

definition scaled_points :: "vec3 list \<Rightarrow> real \<Rightarrow> (real \<times> real) list" where
  "scaled_points centerline scale =
     map (\<lambda>(x, y, z).
            (scale * (x - Min (set (col_x centerline))) + svg_padding centerline scale,
             scale * (y - Min (set (col_y centerline))) + svg_padding centerline scale))
         centerline"

text \<open>
  The loop \<^verbatim>\<open>for i in range(1, len(scaled_points), 3): if i+2 < len(scaled_points): push\<close>.
\<close>

definition curve_commands :: "(real \<times> real) list \<Rightarrow> path_command list" where
  "curve_commands sp =
     map (\<lambda>i. CurveTo (sp ! i) (sp ! (i + 1)) (sp ! (i + 2)))
       (filter (\<lambda>i. i + 2 < length sp) (range_step 1 (length sp) 3))"

text \<open>
  \<^verbatim>\<open>np.min\<close> of an array with no rows raises ValueError, before anything is drawn.
\<close>

definition create_svg :: "vec3 list \<Rightarrow> real \<Rightarrow> error + drawing" where
  "create_svg centerline scale =
     (if centerline = [] then Inl ValueError
      else
        let width = svg_width centerline scale;
            height = svg_height centerline scale;
            padding = svg_padding centerline scale;
            sp = scaled_points centerline scale
        in Inr \<lparr> size_w = width + 2 * padding,
                 size_h = height + 2 * padding,
                 stroke_width = (1 / 2) * scale,
                 path = MoveTo (sp ! 0) # curve_commands sp \<rparr>)"

fun command_points :: "path_command \<Rightarrow> (real \<times> real) list" where
  "command_points (MoveTo p) = [p]"
| "command_points (CurveTo a b c) = [a, b, c]"

fun is_curve :: "path_command \<Rightarrow> bool" where
  "is_curve (MoveTo p) = False"
| "is_curve (CurveTo a b c) = True"

definition segment_count :: "drawing \<Rightarrow> nat" where
  "segment_count d = length (filter is_curve (path d))"

definition emitted_points :: "drawing \<Rightarrow> (real \<times> real) list" where
  "emitted_points d = concat (map command_points (path d))"

subsection \<open>fit_bezier_spline\<close>

text \<open>
  \<^verbatim>\<open>np.linspace(start, stop, num)\<close>: \<open>num\<close> values \<open>start + i * step\<close> with
  \<open>step = (stop - start) / (num - 1)\<close>, the last one being \<open>stop\<close>; a single value is
  \<open>start\<close>.
\<close>

definition linspace :: "real \<Rightarrow> real \<Rightarrow> nat \<Rightarrow> real list" where
  "linspace start stop num =
     (if num = 1 then [start]
      else map (\<lambda>i. start + real i * ((stop - start) / real (num - 1))) [0 ..< num])"

text \<open>
  \<^verbatim>\<open>scipy.interpolate.splprep(x, s=s, k=k)\<close> is a library routine. Its argument checks
  are modelled from its documented behaviour: for \<open>m\<close> data points it raises TypeError
  unless \<open>1 \<le> k \<le> 5\<close> and unless \<open>m > k\<close>. The fit proper, which can fail for reasons of
  its own, is the parameter \<open>fit\<close>; the spline representation it returns has the
  arbitrary type \<open>'tck\<close>. The smoothing condition \<open>s\<close> is \<open>None\<close> when it is \<^verbatim>\<open>nan\<close>.
\<close>

definition splprep ::
  "(vec3 list \<Rightarrow> real option \<Rightarrow> nat \<Rightarrow> error + 'tck) \<Rightarrow> vec3 list \<Rightarrow> real option \<Rightarrow> nat
     \<Rightarrow> error + 'tck" where
  "splprep fit x s k =
     (if \<not> (1 \<le> k \<and> k \<le> 5) then Inl TypeError
      else if length x \<le> k then Inl TypeError
      else fit x s k)"

text \<open>
  \<^verbatim>\<open>splev(u, tck)\<close> evaluates the fitted curve at every parameter value of \<open>u\<close>;
  \<^verbatim>\<open>np.column_stack\<close> turns the three coordinate arrays into points. The evaluation at one
  parameter value is the parameter \<open>splev\<close>. The wire diameter is \<open>None\<close> when it is
  \<^verbatim>\<open>nan\<close> (the median of no distances), and then so is the smoothing condition.
\<close>

definition fit_bezier_spline ::
  "(vec3 list \<Rightarrow> real option \<Rightarrow> nat \<Rightarrow> error + 'tck) \<Rightarrow> ('tck \<Rightarrow> real \<Rightarrow> vec3)
     \<Rightarrow> vec3 list \<Rightarrow> real \<Rightarrow> real option \<Rightarrow> error + (vec3 list \<times> int)" where
  "fit_bezier_spline fit splev points max_error wire_diameter =
     (let normalized_error = map_option (\<lambda>w. max_error * w / 100) wire_diameter in
      case splprep fit points (map_option (\<lambda>e. e ^ 2) normalized_error) 3 of
        Inl e \<Rightarrow> Inl e
      | Inr tck \<Rightarrow>
          let num_points = length points * 2;
              smooth_points = map (splev tck) (linspace 0 1 num_points)
          in Inr (smooth_points, (int num_points - 1) div 3))"

subsection \<open>Vectors\<close>

fun cross :: "vec3 \<Rightarrow> vec3 \<Rightarrow> vec3" where
  "cross (a1, a2, a3) (b1, b2, b3) = (a2 * b3 - a3 * b2, a3 * b1 - a1 * b3, a1 * b2 - a2 * b1)"

fun dot :: "vec3 \<Rightarrow> vec3 \<Rightarrow> real" where
  "dot (a1, a2, a3) (b1, b2, b3) = a1 * b1 + a2 * b2 + a3 * b3"

fun vadd :: "vec3 \<Rightarrow> vec3 \<Rightarrow> vec3" where
  "vadd (a1, a2, a3) (b1, b2, b3) = (a1 + b1, a2 + b2, a3 + b3)"

fun vsub :: "vec3 \<Rightarrow> vec3 \<Rightarrow> vec3" where
  "vsub (a1, a2, a3) (b1, b2, b3) = (a1 - b1, a2 - b2, a3 - b3)"

fun smul :: "real \<Rightarrow> vec3 \<Rightarrow> vec3" where
  "smul c (a1, a2, a3) = (c * a1, c * a2, c * a3)"

fun sdiv :: "vec3 \<Rightarrow> real \<Rightarrow> vec3" where
  "sdiv (a1, a2, a3) c = (a1 / c, a2 / c, a3 / c)"

text \<open>\<^verbatim>\<open>np.linalg.norm\<close> of a vector: the Euclidean length.\<close>

fun vnorm :: "vec3 \<Rightarrow> real" where
  "vnorm (a1, a2, a3) = sqrt (a1 * a1 + a2 * a2 + a3 * a3)"

text \<open>
  Division of two float64 scalars. A zero divisor raises nothing in numpy: the result is
  \<^verbatim>\<open>nan\<close> or \<^verbatim>\<open>inf\<close>, here \<open>None\<close>.
\<close>

definition np_div :: "real \<Rightarrow> real \<Rightarrow> real option" where
  "np_div a b = (if b = 0 then None else Some (a / b))"

subsection \<open>closest_point_between_lines\<close>

text \<open>
  The result is the midpoint of the two closest points and their distance. When one of
  the two quotients is not finite, every component of \<open>c1\<close> or of \<open>c2\<close> is \<^verbatim>\<open>nan\<close> or
  \<^verbatim>\<open>inf\<close>, and so are the midpoint and the distance: the result is \<open>None\<close>.
\<close>

definition closest_point_between_lines ::
  "vec3 \<Rightarrow> vec3 \<Rightarrow> vec3 \<Rightarrow> vec3 \<Rightarrow> (vec3 \<times> real) option" where
  "closest_point_between_lines p1 v1 p2 v2 =
     (let n = cross v1 v2;
          n1 = cross v1 n;
          n2 = cross v2 n
      in case (np_div (dot (vsub p2 p1) n2) (dot v1 n2),
               np_div (dot (vsub p1 p2) n1) (dot v2 n1)) of
           (Some t1, Some t2) \<Rightarrow>
             let c1 = vadd p1 (smul t1 v1);
                 c2 = vadd p2 (smul t2 v2)
             in Some (sdiv (vadd c1 c2) 2, vnorm (vsub c1 c2))
         | _ \<Rightarrow> None)"

subsection \<open>process_chunk\<close>

text \<open>
  The body of the inner loop for one pair of facets: the point appended to
  \<^verbatim>\<open>local_center_points\<close>, if any. A distance that is not finite is not below
  \<^verbatim>\<open>max_distance\<close> (a comparison with \<^verbatim>\<open>nan\<close> or \<^verbatim>\<open>inf < x\<close> is false).
\<close>

definition pair_candidate :: "real \<Rightarrow> vec3 \<Rightarrow> vec3 \<Rightarrow> vec3 \<Rightarrow> vec3 \<Rightarrow> vec3 option" where
  "pair_candidate max_distance p1 v1 p2 v2 =
     (if vnorm (vsub p1 p2) > max_distance * 10 then None
      else case closest_point_between_lines p1 v1 p2 v2 of
             None \<Rightarrow> None
           | Some (intersection_point, distance) \<Rightarrow>
               if distance < max_distance then Some intersection_point else None)"

text \<open>
  The loops over \<open>j\<close> and over \<open>i\<close>; \<open>acc\<close> is \<^verbatim>\<open>local_center_points\<close>. Reading an
  array beyond its end raises IndexError.
\<close>

fun inner_loop ::
  "vec3 list \<Rightarrow> vec3 list \<Rightarrow> real \<Rightarrow> vec3 \<Rightarrow> vec3 \<Rightarrow> nat list \<Rightarrow> vec3 list \<Rightarrow> error + vec3 list" where
  "inner_loop all_centroids all_normals max_distance p1 v1 [] acc = Inr acc"
| "inner_loop all_centroids all_normals max_distance p1 v1 (j # js) acc =
     (if j < length all_centroids \<and> j < length all_normals then
        (case pair_candidate max_distance p1 v1 (all_centroids ! j) (all_normals ! j) of
           None \<Rightarrow> inner_loop all_centroids all_normals max_distance p1 v1 js acc
         | Some intersection_point \<Rightarrow>
             inner_loop all_centroids all_normals max_distance p1 v1 js
               (acc @ [intersection_point]))
      else Inl IndexError)"

fun outer_loop ::
  "vec3 list \<Rightarrow> vec3 list \<Rightarrow> real \<Rightarrow> nat list \<Rightarrow> vec3 list \<Rightarrow> error + vec3 list" where
  "outer_loop all_centroids all_normals max_distance [] acc = Inr acc"
| "outer_loop all_centroids all_normals max_distance (i # is) acc =
     (if i < length all_centroids \<and> i < length all_normals then
        (case inner_loop all_centroids all_normals max_distance
                (all_centroids ! i) (all_normals ! i) [i + 1 ..< length all_centroids] acc of
           Inl e \<Rightarrow> Inl e
         | Inr acc' \<Rightarrow> outer_loop all_centroids all_normals max_distance is acc')
      else Inl IndexError)"

definition process_chunk :: "nat list \<Rightarrow> vec3 list \<Rightarrow> vec3 list \<Rightarrow> real \<Rightarrow> error + vec3 list" where
  "process_chunk chunk all_centroids all_normals max_distance =
     outer_loop all_centroids all_normals max_distance chunk []"

subsection \<open>extract_centerline: the parallel search\<close>

text \<open>
  Lines 41 to 43: the chunks of the index range. \<open>num_processes\<close> is what
  \<^verbatim>\<open>cpu_count()\<close> returns. A chunk size of zero makes \<^verbatim>\<open>range(0, n, 0)\<close> raise
  ValueError.
\<close>

definition make_chunks :: "nat \<Rightarrow> nat \<Rightarrow> error + nat list list" where
  "make_chunks n num_processes =
     (if num_processes = 0 then Inl ZeroDivisionError
      else
        let chunk_size = n div num_processes
        in if chunk_size = 0 then Inl ValueError
           else Inr (map (\<lambda>i. [i ..< min (i + chunk_size) n]) (range_step 0 n chunk_size)))"

text \<open>
  \<^verbatim>\<open>pool.map\<close>: the results of the workers in the order of the chunks, or the exception
  of a worker that failed.
\<close>

fun pool_map :: "('a \<Rightarrow> error + 'b) \<Rightarrow> 'a list \<Rightarrow> error + 'b list" where
  "pool_map f [] = Inr []"
| "pool_map f (x # xs) =
     (case f x of
        Inl e \<Rightarrow> Inl e
      | Inr y \<Rightarrow> (case pool_map f xs of Inl e \<Rightarrow> Inl e | Inr ys \<Rightarrow> Inr (y # ys)))"

definition intersection_search ::
  "nat \<Rightarrow> vec3 list \<Rightarrow> vec3 list \<Rightarrow> real \<Rightarrow> error + vec3 list list" where
  "intersection_search num_processes facet_centroids facet_normals max_distance =
     (case make_chunks (length facet_centroids) num_processes of
        Inl e \<Rightarrow> Inl e
      | Inr chunks \<Rightarrow>
          pool_map (\<lambda>chunk. process_chunk chunk facet_centroids facet_normals max_distance)
            chunks)"

definition candidate_count :: "vec3 list list \<Rightarrow> nat" where
  "candidate_count results = sum_list (map length results)"

subsection \<open>extract_centerline: sampling\<close>

record mesh =
  face_normals :: "vec3 list"
  triangles_center :: "vec3 list"

text \<open>
  \<^verbatim>\<open>np.random.choice(a, size, replace=False)\<close> for an integer population \<open>a\<close>, modelled
  from its documented behaviour: ValueError when the population is empty and the size \<open>sz\<close>
  is not zero, when \<open>sz\<close> exceeds the population, and when \<open>sz\<close> is negative; otherwise
  the first \<open>sz\<close> entries of a random permutation of \<open>0, \<dots>, a - 1\<close>. The permutation
  drawn is the parameter \<open>permutation\<close>.
\<close>

definition random_choice :: "(nat \<Rightarrow> nat list) \<Rightarrow> nat \<Rightarrow> int \<Rightarrow> error + nat list" where
  "random_choice permutation a sz =
     (if a = 0 \<and> sz \<noteq> 0 then Inl ValueError
      else if sz > int a then Inl ValueError
      else if sz < 0 then Inl ValueError
      else Inr (take (nat sz) (permutation a)))"

text \<open>Indexing an array with an array of indices: \<^verbatim>\<open>arr[indices]\<close>.\<close>

definition take_rows :: "'a list \<Rightarrow> nat list \<Rightarrow> error + 'a list" where
  "take_rows arr indices =
     (if list_all (\<lambda>i. i < length arr) indices then Inr (map (\<lambda>i. arr ! i) indices)
      else Inl IndexError)"

text \<open>Lines 33 to 39: the sampled normals and centroids.\<close>

definition sample_facets ::
  "(nat \<Rightarrow> nat list) \<Rightarrow> mesh \<Rightarrow> int \<Rightarrow> error + (vec3 list \<times> vec3 list)" where
  "sample_facets permutation m sample_size =
     (let facet_normals = face_normals m;
          facet_centroids = triangles_center m
      in if int (length facet_centroids) > sample_size then
           (case random_choice permutation (length facet_centroids) sample_size of
              Inl e \<Rightarrow> Inl e
            | Inr indices \<Rightarrow>
                (case take_rows facet_normals indices of
                   Inl e \<Rightarrow> Inl e
                 | Inr sampled_normals \<Rightarrow>
                     (case take_rows facet_centroids indices of
                        Inl e \<Rightarrow> Inl e
                      | Inr sampled_centroids \<Rightarrow> Inr (sampled_normals, sampled_centroids))))
         else Inr (facet_normals, facet_centroids))"

subsection \<open>extract_centerline: stacking, deduplication, ordering\<close>

text \<open>
  From here on \<^verbatim>\<open>center_points\<close> is a two-dimensional array, the list of its rows; the
  empty list is the array of shape \<open>(0, 3)\<close>. A worker that found nothing returns
  \<^verbatim>\<open>np.array([])\<close>, of shape \<open>(0,)\<close>, which \<^verbatim>\<open>np.vstack\<close> takes for one row with no
  columns. \<^verbatim>\<open>np.vstack\<close> raises ValueError for an empty list of arrays and for arrays
  whose numbers of columns differ.
\<close>

definition atleast_2d :: "vec3 list \<Rightarrow> real list list" where
  "atleast_2d pts = (if pts = [] then [[]] else map (\<lambda>(x, y, z). [x, y, z]) pts)"

definition np_vstack :: "vec3 list list \<Rightarrow> error + real list list" where
  "np_vstack results =
     (let arrs = map atleast_2d results
      in if arrs = [] then Inl ValueError
         else if list_all (\<lambda>a. length (hd a) = length (hd (hd arrs))) arrs
           then Inr (concat arrs)
           else Inl ValueError)"

text \<open>The rows of a stacked array that hold a point (three coordinates).\<close>

definition point_rows :: "real list list \<Rightarrow> real list list" where
  "point_rows center_points = filter (\<lambda>row. length row = 3) center_points"

text \<open>\<^verbatim>\<open>np.rint\<close>: the nearest integer, a tie going to the even one.\<close>

definition rint :: "real \<Rightarrow> int" where
  "rint x =
     (let f = \<lfloor>x\<rfloor>;
          d = x - of_int f
      in if d < 1 / 2 then f else if d > 1 / 2 then f + 1 else if even f then f else f + 1)"

text \<open>\<^verbatim>\<open>x.round(decimals=5)\<close>: multiply by \<open>10\<^sup>5\<close>, round to the nearest integer, divide.\<close>

definition round5 :: "real \<Rightarrow> real" where
  "round5 x = of_int (rint (x * 10 ^ 5)) / 10 ^ 5"

text \<open>
  \<^verbatim>\<open>np.unique(a, axis=0)\<close>: the rows sorted lexicographically, each kept once.
\<close>

definition np_unique_rows :: "real list list \<Rightarrow> real list list" where
  "np_unique_rows rows = remdups_adj (sort rows)"

text \<open>Line 50.\<close>

definition dedup :: "real list list \<Rightarrow> real list list" where
  "dedup center_points = np_unique_rows (map (map round5) center_points)"

definition ncols :: "real list list \<Rightarrow> nat" where
  "ncols rows = (case rows of [] \<Rightarrow> 3 | r # rest \<Rightarrow> length r)"

text \<open>\<^verbatim>\<open>np.mean(a, axis=0)\<close>: the mean of every column.\<close>

definition col_means :: "real list list \<Rightarrow> real list" where
  "col_means rows =
     map (\<lambda>j. sum_list (map (\<lambda>r. r ! j) rows) / real (length rows)) [0 ..< ncols rows]"

text \<open>
  \<^verbatim>\<open>np.dot(a, v)\<close> of a two-dimensional array and a vector: ValueError unless the number
  of columns is the length of the vector.
\<close>

definition np_dot :: "real list list \<Rightarrow> real list \<Rightarrow> error + real list" where
  "np_dot rows v =
     (if ncols rows = length v
      then Inr (map (\<lambda>r. sum_list (map2 (*) r v)) rows)
      else Inl ValueError)"

text \<open>\<^verbatim>\<open>np.diff(a, axis=0)\<close>: every row minus the row before it.\<close>

definition np_diff :: "real list list \<Rightarrow> real list list" where
  "np_diff rows = map2 (\<lambda>a b. map2 (-) b a) rows (tl rows)"

definition row_norm :: "real list \<Rightarrow> real" where
  "row_norm r = sqrt (sum_list (map (\<lambda>x. x * x) r))"

text \<open>\<^verbatim>\<open>np.median\<close>: \<^verbatim>\<open>nan\<close> for no values, the middle value, or the mean of the two middle ones.\<close>

definition np_median :: "real list \<Rightarrow> real option" where
  "np_median xs =
     (if xs = [] then None
      else
        let s = sort xs;
            n = length xs
        in if odd n then Some (s ! (n div 2))
           else Some ((s ! (n div 2 - 1) + s ! (n div 2)) / 2))"

text \<open>
  Lines 50 to 59. \<open>principal_axes\<close> is \<^verbatim>\<open>trimesh.transformations.principal_axes\<close>, whose
  first row is the axis projected on; \<open>argsort\<close> is \<^verbatim>\<open>np.argsort\<close>, whose order among
  equal keys is not specified by the library.
\<close>

definition order_centerline ::
  "(real list list \<Rightarrow> error + real list list) \<Rightarrow> (real list \<Rightarrow> nat list) \<Rightarrow> real list list
     \<Rightarrow> error + (real list list \<times> real option)" where
  "order_centerline principal_axes argsort stacked =
     (let center_points = dedup stacked
      in case principal_axes center_points of
           Inl e \<Rightarrow> Inl e
         | Inr pca \<Rightarrow>
             (case pca of
                [] \<Rightarrow> Inl IndexError
              | axis # others \<Rightarrow>
                  (case np_dot (map (\<lambda>r. map2 (-) r (col_means center_points)) center_points)
                          axis of
                     Inl e \<Rightarrow> Inl e
                   | Inr projected \<Rightarrow>
                       (case take_rows center_points (argsort projected) of
                          Inl e \<Rightarrow> Inl e
                        | Inr sorted_points \<Rightarrow>
                            Inr (sorted_points,
                                 np_median (map row_norm (np_diff sorted_points)))))))"

subsection \<open>extract_centerline\<close>

definition extract_centerline ::
  "(nat \<Rightarrow> nat list) \<Rightarrow> nat \<Rightarrow> (real list list \<Rightarrow> error + real list list)
     \<Rightarrow> (real list \<Rightarrow> nat list) \<Rightarrow> mesh \<Rightarrow> real \<Rightarrow> int
     \<Rightarrow> error + (real list list \<times> real option)" where
  "extract_centerline permutation num_processes principal_axes argsort m max_distance sample_size =
     (case sample_facets permutation m sample_size of
        Inl e \<Rightarrow> Inl e
      | Inr (facet_normals, facet_centroids) \<Rightarrow>
          (case intersection_search num_processes facet_centroids facet_normals max_distance of
             Inl e \<Rightarrow> Inl e
           | Inr results \<Rightarrow>
               (case np_vstack results of
                  Inl e \<Rightarrow> Inl e
                | Inr center_points \<Rightarrow> order_centerline principal_axes argsort center_points)))"

section \<open>Properties\<close>

subsection \<open>The emitted path\<close>

lemma range_step_examples:
  "range_step 1 8 3 = [1, 4, 7]" "range_step 1 7 3 = [1, 4]" "range_step 0 5 2 = [0, 2, 4]"
  "range_step 1 1 3 = []" "range_step 1 0 3 = []"
  by (simp_all add: range_step_def upt_rec)

lemma filter_less_upt: "a \<le> b \<Longrightarrow> filter (\<lambda>k. k < a) [0 ..< b] = [0 ..< (a::nat)]"
proof (induction b)
  case 0
  then show ?case by simp
next
  case (Suc b)
  show ?case
  proof (cases "a = Suc b")
    case True
    have "filter (\<lambda>k. k < Suc b) [0 ..< Suc b] = [0 ..< Suc b]"
      by (rule filter_True) simp
    with True show ?thesis by simp
  next
    case False
    with Suc.prems have "a \<le> b" by simp
    with Suc.IH show ?thesis by simp
  qed
qed

lemma curve_indices:
  "filter (\<lambda>i. i + 2 < n) (range_step 1 n 3) = map (\<lambda>k. 3 * k + 1) [0 ..< (n - 1) div 3]"
proof -
  have "filter (\<lambda>i. i + 2 < n) (range_step 1 n 3)
        = map (\<lambda>k. 1 + k * 3) (filter (\<lambda>k. 1 + k * 3 + 2 < n) [0 ..< (n - 1 + 3 - 1) div 3])"
    by (simp add: range_step_def filter_map comp_def)
  also have "(\<lambda>k. 1 + k * 3 + 2 < n) = (\<lambda>k. k < (n - 1) div 3)"
    by (rule ext) arith
  also have "filter (\<lambda>k. k < (n - 1) div 3) [0 ..< (n - 1 + 3 - 1) div 3] = [0 ..< (n - 1) div 3]"
    by (rule filter_less_upt) arith
  finally show ?thesis by (simp add: mult.commute add.commute)
qed

lemma curve_commands_eq:
  "curve_commands sp =
     map (\<lambda>k. CurveTo (sp ! (3 * k + 1)) (sp ! (3 * k + 2)) (sp ! (3 * k + 3)))
       [0 ..< (length sp - 1) div 3]"
proof -
  have "curve_commands sp =
          map (\<lambda>i. CurveTo (sp ! i) (sp ! (i + 1)) (sp ! (i + 2)))
            (map (\<lambda>k. 3 * k + 1) [0 ..< (length sp - 1) div 3])"
    unfolding curve_commands_def curve_indices ..
  also have "\<dots> = map (\<lambda>k. CurveTo (sp ! (3 * k + 1)) (sp ! (3 * k + 1 + 1)) (sp ! (3 * k + 1 + 2)))
                     [0 ..< (length sp - 1) div 3]"
    unfolding map_map comp_def ..
  also have "(\<lambda>k. CurveTo (sp ! (3 * k + 1)) (sp ! (3 * k + 1 + 1)) (sp ! (3 * k + 1 + 2)))
              = (\<lambda>k. CurveTo (sp ! (3 * k + 1)) (sp ! (3 * k + 2)) (sp ! (3 * k + 3)))"
  proof (rule ext)
    fix k :: nat
    have "3 * k + 1 + 1 = 3 * k + 2" and "3 * k + 1 + 2 = 3 * k + 3" by arith+
    then show "CurveTo (sp ! (3 * k + 1)) (sp ! (3 * k + 1 + 1)) (sp ! (3 * k + 1 + 2))
                = CurveTo (sp ! (3 * k + 1)) (sp ! (3 * k + 2)) (sp ! (3 * k + 3))"
      by (simp only:)
  qed
  finally show ?thesis .
qed

lemma length_scaled_points: "length (scaled_points centerline scale) = length centerline"
  by (simp add: scaled_points_def)


lemma emitted_take:
  "3 * q + 1 \<le> length sp \<Longrightarrow>
     sp ! 0 # concat (map (\<lambda>k. [sp ! (3 * k + 1), sp ! (3 * k + 2), sp ! (3 * k + 3)]) [0 ..< q])
       = take (3 * q + 1) sp"
proof (induction q)
  case 0
  then have "sp \<noteq> []" by auto
  then show ?case by (cases sp) simp_all
next
  case (Suc q)
  from Suc.prems have len: "3 * q + 1 < length sp" "3 * q + 2 < length sp" "3 * q + 3 < length sp"
    by simp_all
  have t1: "take (3 * q + 2) sp = take (3 * q + 1) sp @ [sp ! (3 * q + 1)]"
    using take_Suc_conv_app_nth [OF len(1)] by simp
  have t2: "take (3 * q + 3) sp = take (3 * q + 2) sp @ [sp ! (3 * q + 2)]"
    using take_Suc_conv_app_nth [OF len(2)] by (simp add: numeral_3_eq_3)
  have t3: "take (3 * q + 4) sp = take (3 * q + 3) sp @ [sp ! (3 * q + 3)]"
    using take_Suc_conv_app_nth [OF len(3)] by (simp add: eval_nat_numeral)
  have "3 * Suc q + 1 = 3 * q + 4" by simp
  then have "take (3 * Suc q + 1) sp
              = take (3 * q + 1) sp @ [sp ! (3 * q + 1), sp ! (3 * q + 2), sp ! (3 * q + 3)]"
    by (simp only: t1 t2 t3 append_assoc append_Cons append_Nil)
  moreover from Suc.prems have "3 * q + 1 \<le> length sp" by simp
  ultimately show ?case using Suc.IH by simp
qed

lemma command_points_curve:
  "command_points \<circ> (\<lambda>k. CurveTo (f k) (g k) (h k)) = (\<lambda>k. [f k, g k, h k])"
  by (rule ext) simp

lemma emitted_points_eq:
  assumes "create_svg centerline scale = Inr d"
  shows "emitted_points d
           = take (3 * ((length centerline - 1) div 3) + 1) (scaled_points centerline scale)"
proof -
  let ?sp = "scaled_points centerline scale"
  from assms have ne: "centerline \<noteq> []"
    by (auto simp: create_svg_def split: if_splits)
  with assms have p: "path d = MoveTo (?sp ! 0) # curve_commands ?sp"
    by (auto simp: create_svg_def Let_def)
  from ne have "0 < length centerline" by simp
  then have "3 * ((length centerline - 1) div 3) + 1 \<le> length ?sp"
    unfolding length_scaled_points by arith
  from emitted_take [OF this] show ?thesis
    by (simp add: emitted_points_def p curve_commands_eq length_scaled_points
        command_points_curve)
qed

text \<open>
  C7. For a smoothed curve of \<open>N \<ge> 1\<close> points, \<^verbatim>\<open>create_svg\<close> emits one move-to at the
  first scaled point followed by \<open>(N - 1) div 3\<close> curve-to commands; the \<open>k\<close>-th of them
  consumes the scaled points \<open>3k+1\<close>, \<open>3k+2\<close>, \<open>3k+3\<close>. The coordinates emitted are, in
  order, the first \<open>3 * ((N - 1) div 3) + 1\<close> scaled points: the one or two points left
  over when \<open>N - 1\<close> is not a multiple of three are dropped.
\<close>

theorem create_svg_path_shape:
  assumes "centerline \<noteq> []"
  shows "\<exists>d. create_svg centerline scale = Inr d
           \<and> path d = MoveTo (scaled_points centerline scale ! 0)
                 # map (\<lambda>k. CurveTo (scaled_points centerline scale ! (3 * k + 1))
                                    (scaled_points centerline scale ! (3 * k + 2))
                                    (scaled_points centerline scale ! (3 * k + 3)))
                     [0 ..< (length centerline - 1) div 3]
           \<and> segment_count d = (length centerline - 1) div 3
           \<and> emitted_points d
               = take (3 * ((length centerline - 1) div 3) + 1) (scaled_points centerline scale)"
proof -
  let ?sp = "scaled_points centerline scale"
  obtain d where d: "create_svg centerline scale = Inr d"
    and p: "path d = MoveTo (?sp ! 0) # curve_commands ?sp"
    using assms by (simp add: create_svg_def Let_def)
  have "filter is_curve (map (\<lambda>k. CurveTo (?sp ! (3 * k + 1)) (?sp ! (3 * k + 2)) (?sp ! (3 * k + 3)))
          [0 ..< (length centerline - 1) div 3])
        = map (\<lambda>k. CurveTo (?sp ! (3 * k + 1)) (?sp ! (3 * k + 2)) (?sp ! (3 * k + 3)))
          [0 ..< (length centerline - 1) div 3]"
    by (rule filter_True) auto
  then have "segment_count d = (length centerline - 1) div 3"
    by (simp add: segment_count_def p curve_commands_eq length_scaled_points)
  with d p emitted_points_eq [OF d] show ?thesis
    by (simp add: curve_commands_eq length_scaled_points)
qed

theorem create_svg_path_shape_witness:
  "[(0, 0, 0), (1, 2, 0), (2, 1, 0), (3, 3, 0), (4, 0, 0), (5, 1, 0)] \<noteq> ([] :: vec3 list)
   \<and> (\<exists>d. create_svg [(0, 0, 0), (1, 2, 0), (2, 1, 0), (3, 3, 0), (4, 0, 0), (5, 1, 0)] 2 = Inr d
        \<and> segment_count d = 1
        \<and> length (emitted_points d) = 4)"
proof -
  let ?cl = "[(0, 0, 0), (1, 2, 0), (2, 1, 0), (3, 3, 0), (4, 0, 0), (5, 1, 0)] :: vec3 list"
  have ne: "?cl \<noteq> []" by simp
  from create_svg_path_shape [OF ne, of 2]
  obtain d where "create_svg ?cl 2 = Inr d" "segment_count d = (length ?cl - 1) div 3"
    "emitted_points d = take (3 * ((length ?cl - 1) div 3) + 1) (scaled_points ?cl 2)"
    by blast
  then have "create_svg ?cl 2 = Inr d \<and> segment_count d = 1 \<and> length (emitted_points d) = 4"
    by (simp add: length_scaled_points)
  with ne show ?thesis by blast
qed


subsection \<open>The document box\<close>

lemma create_svg_success: "centerline \<noteq> [] \<Longrightarrow> \<exists>d. create_svg centerline scale = Inr d"
  by (simp add: create_svg_def Let_def)

lemma col_x_bounds:
  assumes "(x, y, z) \<in> set centerline"
  shows "Min (set (col_x centerline)) \<le> x" and "x \<le> Max (set (col_x centerline))"
proof -
  from assms have "x \<in> set (col_x centerline)" by (force simp: col_x_def)
  then show "Min (set (col_x centerline)) \<le> x" and "x \<le> Max (set (col_x centerline))"
    by simp_all
qed

lemma col_y_bounds:
  assumes "(x, y, z) \<in> set centerline"
  shows "Min (set (col_y centerline)) \<le> y" and "y \<le> Max (set (col_y centerline))"
proof -
  from assms have "y \<in> set (col_y centerline)" by (force simp: col_y_def)
  then show "Min (set (col_y centerline)) \<le> y" and "y \<le> Max (set (col_y centerline))"
    by simp_all
qed

lemma scaled_offset_bounds:
  fixes scale :: real
  assumes "0 < scale" and "lo \<le> x" and "x \<le> hi"
  shows "0 \<le> scale * (x - lo)" and "scale * (x - lo) \<le> (hi - lo) * scale"
proof -
  from assms show "0 \<le> scale * (x - lo)" by simp
  from assms have "scale * (x - lo) \<le> scale * (hi - lo)"
    by (intro mult_left_mono) simp_all
  then show "scale * (x - lo) \<le> (hi - lo) * scale" by (simp add: mult.commute)
qed

lemma svg_padding_nonneg:
  assumes "0 < scale" and "centerline \<noteq> []"
  shows "0 \<le> svg_padding centerline scale"
proof -
  obtain x y z where m: "(x, y, z) \<in> set centerline"
    using assms(2) by (cases centerline) auto
  from col_x_bounds [OF m] have "Min (set (col_x centerline)) \<le> Max (set (col_x centerline))"
    by linarith
  with assms(1) have "0 \<le> svg_width centerline scale"
    by (simp add: svg_width_def)
  then show ?thesis by (simp add: svg_padding_def max_def)
qed

lemma scaled_point_in_box:
  assumes "0 < scale" and "(px, py) \<in> set (scaled_points centerline scale)"
  shows "svg_padding centerline scale \<le> px
       \<and> px \<le> svg_width centerline scale + svg_padding centerline scale
       \<and> svg_padding centerline scale \<le> py
       \<and> py \<le> svg_height centerline scale + svg_padding centerline scale"
proof -
  from assms(2) obtain x y z where m: "(x, y, z) \<in> set centerline"
    and px: "px = scale * (x - Min (set (col_x centerline))) + svg_padding centerline scale"
    and py: "py = scale * (y - Min (set (col_y centerline))) + svg_padding centerline scale"
    by (auto simp: scaled_points_def)
  from scaled_offset_bounds [OF assms(1) col_x_bounds [OF m]]
       scaled_offset_bounds [OF assms(1) col_y_bounds [OF m]]
  show ?thesis by (simp add: px py svg_width_def svg_height_def)
qed

text \<open>
  C10. For every curve that \<^verbatim>\<open>create_svg\<close> draws with a positive scale, each emitted
  point \<open>(x, y)\<close> has \<open>x\<close> in \<open>[padding, width + padding]\<close> and \<open>y\<close> in
  \<open>[padding, height + padding]\<close>, hence inside the declared document
  \<open>[0, width + 2 * padding] \<times> [0, height + 2 * padding]\<close>, where width and height are the
  scaled extents of the bounding box and padding is a tenth of the larger one.
\<close>

theorem create_svg_points_in_box:
  assumes "0 < scale" and "create_svg centerline scale = Inr d"
  shows "list_all (\<lambda>(x, y).
             svg_padding centerline scale \<le> x
           \<and> x \<le> svg_width centerline scale + svg_padding centerline scale
           \<and> svg_padding centerline scale \<le> y
           \<and> y \<le> svg_height centerline scale + svg_padding centerline scale
           \<and> 0 \<le> x \<and> x \<le> size_w d \<and> 0 \<le> y \<and> y \<le> size_h d)
           (emitted_points d)
       \<and> size_w d = svg_width centerline scale + 2 * svg_padding centerline scale
       \<and> size_h d = svg_height centerline scale + 2 * svg_padding centerline scale
       \<and> svg_padding centerline scale
           = max (svg_width centerline scale) (svg_height centerline scale) * (1 / 10)"
proof -
  from assms(2) have ne: "centerline \<noteq> []"
    by (auto simp: create_svg_def split: if_splits)
  with assms(2) have w: "size_w d = svg_width centerline scale + 2 * svg_padding centerline scale"
    and h: "size_h d = svg_height centerline scale + 2 * svg_padding centerline scale"
    by (auto simp: create_svg_def Let_def)
  note pad = svg_padding_nonneg [OF assms(1) ne]
  have "\<And>p. p \<in> set (emitted_points d) \<Longrightarrow> p \<in> set (scaled_points centerline scale)"
    unfolding emitted_points_eq [OF assms(2)] by (rule in_set_takeD)
  then have "\<And>px py. (px, py) \<in> set (emitted_points d) \<Longrightarrow>
      svg_padding centerline scale \<le> px
    \<and> px \<le> svg_width centerline scale + svg_padding centerline scale
    \<and> svg_padding centerline scale \<le> py
    \<and> py \<le> svg_height centerline scale + svg_padding centerline scale"
    using scaled_point_in_box [OF assms(1)] by blast
  with pad have "\<And>px py. (px, py) \<in> set (emitted_points d) \<Longrightarrow>
      svg_padding centerline scale \<le> px
    \<and> px \<le> svg_width centerline scale + svg_padding centerline scale
    \<and> svg_padding centerline scale \<le> py
    \<and> py \<le> svg_height centerline scale + svg_padding centerline scale
    \<and> 0 \<le> px \<and> px \<le> size_w d \<and> 0 \<le> py \<and> py \<le> size_h d"
    unfolding w h by fastforce
  then have "list_all (\<lambda>(x, y).
             svg_padding centerline scale \<le> x
           \<and> x \<le> svg_width centerline scale + svg_padding centerline scale
           \<and> svg_padding centerline scale \<le> y
           \<and> y \<le> svg_height centerline scale + svg_padding centerline scale
           \<and> 0 \<le> x \<and> x \<le> size_w d \<and> 0 \<le> y \<and> y \<le> size_h d)
           (emitted_points d)"
    unfolding list_all_iff by blast
  with w h show ?thesis by (simp add: svg_padding_def)
qed

theorem create_svg_points_in_box_witness:
  "(0::real) < 2
   \<and> create_svg [(0, 0, 0), (1, 2, 0), (2, 1, 0), (3, 4, 0), (4, 0, 0)] 2
       = Inr \<lparr> size_w = 48 / 5, size_h = 48 / 5, stroke_width = 1,
               path = [MoveTo (4 / 5, 4 / 5),
                       CurveTo (14 / 5, 24 / 5) (24 / 5, 14 / 5) (34 / 5, 44 / 5)] \<rparr>
   \<and> list_all (\<lambda>(x, y). 0 \<le> x \<and> x \<le> 48 / 5 \<and> 0 \<le> y \<and> y \<le> 48 / 5)
       ([(4 / 5, 4 / 5), (14 / 5, 24 / 5), (24 / 5, 14 / 5), (34 / 5, 44 / 5)]
          :: (real \<times> real) list)"
proof -
  let ?cl = "[(0, 0, 0), (1, 2, 0), (2, 1, 0), (3, 4, 0), (4, 0, 0)] :: vec3 list"
  let ?d = "\<lparr> size_w = 48 / 5, size_h = 48 / 5, stroke_width = 1,
               path = [MoveTo (4 / 5, 4 / 5),
                       CurveTo (14 / 5, 24 / 5) (24 / 5, 14 / 5) (34 / 5, 44 / 5)] \<rparr>"
  have pos: "(0::real) < 2" by simp
  have run: "create_svg ?cl 2 = Inr ?d"
    by (simp add: create_svg_def Let_def scaled_points_def curve_commands_eq
        svg_padding_def svg_width_def svg_height_def col_x_def col_y_def)
  from create_svg_points_in_box [OF pos run]
  have "list_all (\<lambda>(x, y). 0 \<le> x \<and> x \<le> size_w ?d \<and> 0 \<le> y \<and> y \<le> size_h ?d)
          (emitted_points ?d)"
    unfolding list_all_iff by fast
  then have "list_all (\<lambda>(x, y). 0 \<le> x \<and> x \<le> 48 / 5 \<and> 0 \<le> y \<and> y \<le> 48 / 5)
       ([(4 / 5, 4 / 5), (14 / 5, 24 / 5), (24 / 5, 14 / 5), (34 / 5, 44 / 5)]
          :: (real \<times> real) list)"
    by (simp add: emitted_points_def)
  with pos run show ?thesis by blast
qed


subsection \<open>Spline smoothing\<close>

lemma length_linspace: "length (linspace a b n) = n"
  by (simp add: linspace_def)

lemma linspace_unit:
  "2 \<le> n \<Longrightarrow> linspace 0 1 n = map (\<lambda>i. real i / real (n - 1)) [0 ..< n]"
  by (simp add: linspace_def)

lemma fit_bezier_spline_Inr:
  assumes "fit_bezier_spline fit splev points max_error wd = Inr (smooth, ncurves)"
  shows "4 \<le> length points"
    and "\<exists>tck. fit points (map_option (\<lambda>w. (max_error * w / 100) ^ 2) wd) 3 = Inr tck
           \<and> smooth = map (splev tck) (linspace 0 1 (2 * length points))"
    and "ncurves = (2 * int (length points) - 1) div 3"
proof -
  from assms show "4 \<le> length points"
    by (auto simp: fit_bezier_spline_def splprep_def Let_def split: if_splits sum.splits)
  then have "\<not> length points \<le> 3" by simp
  with assms show "\<exists>tck. fit points (map_option (\<lambda>w. (max_error * w / 100) ^ 2) wd) 3 = Inr tck
           \<and> smooth = map (splev tck) (linspace 0 1 (2 * length points))"
    by (auto simp: fit_bezier_spline_def splprep_def Let_def option.map_comp comp_def
        mult.commute split: sum.splits)
  from assms show "ncurves = (2 * int (length points) - 1) div 3"
    by (auto simp: fit_bezier_spline_def Let_def mult.commute split: sum.splits)
qed

text \<open>
  C6. When the fit succeeds on \<open>n\<close> points, \<^verbatim>\<open>fit_bezier_spline\<close> returns \<open>2 * n\<close> points,
  the fitted curve evaluated at the parameter values \<open>i / (2 * n - 1)\<close> for
  \<open>i = 0, \<dots>, 2 * n - 1\<close> (evenly spaced from 0 to 1), and reports
  \<open>(2 * n - 1) div 3\<close> as the number of curves.
\<close>

theorem fit_bezier_spline_output:
  assumes "fit_bezier_spline fit splev points max_error wd = Inr (smooth, ncurves)"
  shows "length smooth = 2 * length points
       \<and> (\<exists>tck. fit points (map_option (\<lambda>w. (max_error * w / 100) ^ 2) wd) 3 = Inr tck
             \<and> smooth = map (\<lambda>i. splev tck (real i / real (2 * length points - 1)))
                          [0 ..< 2 * length points])
       \<and> ncurves = (2 * int (length points) - 1) div 3"
proof -
  note r = fit_bezier_spline_Inr [OF assms]
  from r(1) have "2 \<le> 2 * length points" by simp
  from linspace_unit [OF this] r(2)
  have "\<exists>tck. fit points (map_option (\<lambda>w. (max_error * w / 100) ^ 2) wd) 3 = Inr tck
             \<and> smooth = map (\<lambda>i. splev tck (real i / real (2 * length points - 1)))
                          [0 ..< 2 * length points]"
    by (auto simp: comp_def)
  moreover from r(2) have "length smooth = 2 * length points"
    by (auto simp: length_linspace)
  ultimately show ?thesis using r(3) by blast
qed

theorem fit_bezier_spline_output_witness:
  "fit_bezier_spline (\<lambda>x s k. Inr ()) (\<lambda>t u. (u, 2 * u, 0))
       [(0, 0, 0), (1, 0, 0), (2, 0, 0), (3, 0, 0)] 5 (Some 1)
     = Inr ([(0, 0, 0), (1 / 7, 2 / 7, 0), (2 / 7, 4 / 7, 0), (3 / 7, 6 / 7, 0),
             (4 / 7, 8 / 7, 0), (5 / 7, 10 / 7, 0), (6 / 7, 12 / 7, 0), (1, 2, 0)], 2)
   \<and> length [(0, 0, 0), (1 / 7, 2 / 7, 0), (2 / 7, 4 / 7, 0), (3 / 7, 6 / 7, 0),
             (4 / 7, 8 / 7, 0), (5 / 7, 10 / 7, 0), (6 / 7, 12 / 7, 0), (1, 2, 0 :: real)]
       = 2 * length [(0, 0, 0), (1, 0, 0), (2, 0, 0), (3, 0, 0 :: real)]
   \<and> (2::int) = (2 * int (length [(0, 0, 0), (1, 0, 0), (2, 0, 0), (3, 0, 0 :: real)]) - 1) div 3"
proof -
  have upt8: "[0 ..< 8] = [0, 1, 2, 3, 4, 5, 6, 7 :: nat]"
    by (simp add: upt_rec)
  have run: "fit_bezier_spline (\<lambda>x s k. Inr ()) (\<lambda>t u. (u, 2 * u, 0))
       [(0, 0, 0), (1, 0, 0), (2, 0, 0), (3, 0, 0)] 5 (Some 1)
     = Inr ([(0, 0, 0), (1 / 7, 2 / 7, 0), (2 / 7, 4 / 7, 0), (3 / 7, 6 / 7, 0),
             (4 / 7, 8 / 7, 0), (5 / 7, 10 / 7, 0), (6 / 7, 12 / 7, 0), (1, 2, 0)], 2)"
    by (simp add: fit_bezier_spline_def splprep_def linspace_def Let_def upt8)
  from fit_bezier_spline_output [OF run] run show ?thesis by simp
qed

text \<open>
  C2 (as the code has it). On fewer than four points \<^verbatim>\<open>fit_bezier_spline\<close> fails and
  returns no curve; the failure is the TypeError that the fitting routine raises for
  \<open>m \<le> k\<close>. The code has no InsufficientDataError.
\<close>

theorem fit_bezier_spline_too_few_points:
  assumes "length points < 4"
  shows "fit_bezier_spline fit splev points max_error wd = Inl TypeError"
  using assms by (simp add: fit_bezier_spline_def splprep_def Let_def)

theorem fit_bezier_spline_too_few_points_witness:
  "length [(0, 0, 0), (1, 0, 0), (2, 0, 0 :: real)] < 4
   \<and> fit_bezier_spline (\<lambda>x s k. Inr ()) (\<lambda>t u. (u, 2 * u, 0))
        [(0, 0, 0), (1, 0, 0), (2, 0, 0)] 5 None = Inl TypeError"
proof -
  have few: "length [(0, 0, 0), (1, 0, 0), (2, 0, 0 :: real)] < 4" by simp
  from fit_bezier_spline_too_few_points [OF few] few show ?thesis by blast
qed

theorem fit_bezier_spline_no_insufficient_data_error:
  "fit_bezier_spline (\<lambda>x s k. Inr ()) (\<lambda>t u. (u, 2 * u, 0))
       [(0, 0, 0), (1, 0, 0), (2, 0, 0)] 5 (Some 1) = Inl TypeError
   \<and> fit_bezier_spline (\<lambda>x s k. Inr ()) (\<lambda>t u. (u, 2 * u, 0))
       [(0, 0, 0), (1, 0, 0), (2, 0, 0)] 5 (Some 1) \<noteq> Inl InsufficientDataError"
  by (simp add: fit_bezier_spline_def splprep_def Let_def)


subsection \<open>Tolerance and the number of segments\<close>

lemma segment_count_create_svg:
  assumes "create_svg centerline scale = Inr d"
  shows "segment_count d = (length centerline - 1) div 3"
proof -
  let ?sp = "scaled_points centerline scale"
  from assms have p: "path d = MoveTo (?sp ! 0) # curve_commands ?sp"
    by (auto simp: create_svg_def Let_def split: if_splits)
  have "filter is_curve (curve_commands ?sp) = curve_commands ?sp"
    by (rule filter_True) (auto simp: curve_commands_def)
  then show ?thesis
    by (simp add: segment_count_def p) (simp add: curve_commands_eq length_scaled_points)
qed

text \<open>
  C8. For a fixed point sequence and a fixed wire diameter, take two error percentages
  \<open>e1 \<le> e2\<close> for which smoothing and emission both succeed. The path emitted with
  \<open>e2\<close> has no more curve segments than the one emitted with \<open>e1\<close> (both have
  \<open>(2 * n - 1) div 3\<close> of them, whatever the tolerance).
\<close>

theorem segment_count_tolerance_monotone:
  assumes "e1 \<le> e2"
    and "fit_bezier_spline fit splev points e1 wd = Inr (smooth1, n1)"
    and "create_svg smooth1 scale = Inr d1"
    and "fit_bezier_spline fit splev points e2 wd = Inr (smooth2, n2)"
    and "create_svg smooth2 scale = Inr d2"
  shows "segment_count d2 \<le> segment_count d1"
proof -
  from fit_bezier_spline_Inr(2) [OF assms(2)] have "length smooth1 = 2 * length points"
    by (auto simp: length_linspace)
  moreover from fit_bezier_spline_Inr(2) [OF assms(4)] have "length smooth2 = 2 * length points"
    by (auto simp: length_linspace)
  ultimately show ?thesis
    by (simp add: segment_count_create_svg [OF assms(3)] segment_count_create_svg [OF assms(5)])
qed

theorem segment_count_tolerance_monotone_witness:
  "(1::real) \<le> 5
   \<and> (\<exists>smooth1 n1 d1 smooth2 n2 d2.
        fit_bezier_spline (\<lambda>x s k. if s = Some 0 then Inl ValueError else Inr s)
            (\<lambda>t u. (u, 2 * u, 0)) [(0, 0, 0), (1, 0, 0), (2, 0, 0), (3, 0, 0)] 1 (Some 2)
          = Inr (smooth1, n1)
      \<and> create_svg smooth1 3 = Inr d1
      \<and> fit_bezier_spline (\<lambda>x s k. if s = Some 0 then Inl ValueError else Inr s)
            (\<lambda>t u. (u, 2 * u, 0)) [(0, 0, 0), (1, 0, 0), (2, 0, 0), (3, 0, 0)] 5 (Some 2)
          = Inr (smooth2, n2)
      \<and> create_svg smooth2 3 = Inr d2
      \<and> segment_count d1 = 2
      \<and> segment_count d2 \<le> segment_count d1)"
proof -
  let ?fit = "\<lambda>(x :: vec3 list) (s :: real option) (k :: nat).
                if s = Some 0 then Inl ValueError else Inr s"
  let ?ev = "\<lambda>(t :: real option) (u :: real). (u, 2 * u, 0 :: real)"
  let ?pts = "[(0, 0, 0), (1, 0, 0), (2, 0, 0), (3, 0, 0)] :: vec3 list"
  have le: "(1::real) \<le> 5" by simp
  let ?s1 = "map (?ev (Some (1 / 2500))) (linspace 0 1 8)"
  let ?s2 = "map (?ev (Some (1 / 100))) (linspace 0 1 8)"
  have r1: "fit_bezier_spline ?fit ?ev ?pts 1 (Some 2) = Inr (?s1, 2)"
    by (simp add: fit_bezier_spline_def splprep_def Let_def power2_eq_square)
  have r2: "fit_bezier_spline ?fit ?ev ?pts 5 (Some 2) = Inr (?s2, 2)"
    by (simp add: fit_bezier_spline_def splprep_def Let_def power2_eq_square)
  have "?s1 \<noteq> []" and "?s2 \<noteq> []"
    by (simp_all add: linspace_def)
  then obtain d1 d2 where c1: "create_svg ?s1 3 = Inr d1" and c2: "create_svg ?s2 3 = Inr d2"
    using create_svg_success by blast
  have n1: "segment_count d1 = 2"
    by (simp add: segment_count_create_svg [OF c1] length_linspace)
  from segment_count_tolerance_monotone [OF le r1 c1 r2 c2]
  have "segment_count d2 \<le> segment_count d1" .
  with le r1 c1 r2 c2 n1 show ?thesis by blast
qed

subsection \<open>Degenerate facet pairs\<close>

lemma closest_point_degenerate:
  assumes "dot v1 (cross v2 (cross v1 v2)) = 0 \<or> dot v2 (cross v1 (cross v1 v2)) = 0"
  shows "closest_point_between_lines p1 v1 p2 v2 = None"
  using assms
  by (auto simp: closest_point_between_lines_def np_div_def Let_def split: option.splits)

lemma cross_parallel_degenerate:
  assumes "cross v1 v2 = (0, 0, 0)"
  shows "dot v1 (cross v2 (cross v1 v2)) = 0"
proof -
  obtain a1 a2 a3 where v1: "v1 = (a1, a2, a3)" by (cases v1) auto
  obtain b1 b2 b3 where v2: "v2 = (b1, b2, b3)" by (cases v2) auto
  show ?thesis unfolding assms by (simp add: v1 v2)
qed

text \<open>
  C1 (as the code has it). The code has no guard on the divisors. When \<open>v1 \<bullet> n2\<close> or
  \<open>v2 \<bullet> n1\<close> is exactly zero, which includes every pair with \<open>v1 \<times> v2 = 0\<close>, the division
  raises nothing, the result is not finite, the test against \<^verbatim>\<open>max_distance\<close> fails and
  the pair contributes no candidate: the search over the two facets alone returns the
  empty list.
\<close>

theorem degenerate_pair_no_candidate:
  assumes "cross v1 v2 = (0, 0, 0)
         \<or> dot v1 (cross v2 (cross v1 v2)) = 0
         \<or> dot v2 (cross v1 (cross v1 v2)) = 0"
  shows "closest_point_between_lines p1 v1 p2 v2 = None
       \<and> pair_candidate max_distance p1 v1 p2 v2 = None
       \<and> process_chunk [0, 1] [p1, p2] [v1, v2] max_distance = Inr []"
proof -
  from assms cross_parallel_degenerate
  have "dot v1 (cross v2 (cross v1 v2)) = 0 \<or> dot v2 (cross v1 (cross v1 v2)) = 0"
    by blast
  then have c: "closest_point_between_lines p1 v1 p2 v2 = None"
    by (rule closest_point_degenerate)
  then have p: "pair_candidate max_distance p1 v1 p2 v2 = None"
    by (simp add: pair_candidate_def)
  have "[Suc 0 ..< 2] = [Suc 0]" by (simp add: upt_rec)
  with p have "process_chunk [0, 1] [p1, p2] [v1, v2] max_distance = Inr []"
    by (simp add: process_chunk_def)
  with c p show ?thesis by blast
qed

theorem degenerate_pair_no_candidate_witness:
  "(cross (1, 0, 0) (1, 0, 0) = (0, 0, 0)
     \<or> dot (1, 0, 0) (cross (1, 0, 0) (cross (1, 0, 0) (1, 0, 0))) = 0
     \<or> dot (1, 0, 0) (cross (1, 0, 0) (cross (1, 0, 0) (1, 0, 0))) = 0)
   \<and> closest_point_between_lines (0, 0, 0) (1, 0, 0) (0, 1, 0) (1, 0, 0) = None
   \<and> pair_candidate 1 (0, 0, 0) (1, 0, 0) (0, 1, 0) (1, 0, 0) = None
   \<and> process_chunk [0, 1] [(0, 0, 0), (0, 1, 0)] [(1, 0, 0), (1, 0, 0)] 1 = Inr []"
proof -
  have h: "cross (1, 0, 0) (1, 0, 0) = (0, 0, 0)
     \<or> dot (1, 0, 0) (cross (1, 0, 0) (cross (1, 0, 0) (1, 0, 0))) = 0
     \<or> dot (1, 0, 0) (cross (1, 0, 0) (cross (1, 0, 0) (1, 0, 0))) = 0"
    by simp
  from degenerate_pair_no_candidate [OF h, of "(0, 0, 0)" "(0, 1, 0)" 1] h
  show ?thesis by blast
qed

text \<open>
  A near-parallel pair is not skipped: for the normals \<open>(1, 0, 0)\<close> and
  \<open>(1, 2\<^sup>-\<^sup>3\<^sup>0, 0)\<close> the divisor \<open>v1 \<bullet> n2\<close> is \<open>2\<^sup>-\<^sup>6\<^sup>0\<close>, the code divides by it, and the
  pair contributes the candidate \<open>(1, 0, 0)\<close>. (All the intermediate values are exact
  in float64 too.)
\<close>

theorem near_parallel_pair_contributes:
  "dot (1, 0, 0) (cross (1, 1 / 2 ^ 30, 0) (cross (1, 0, 0) (1, 1 / 2 ^ 30, 0))) = 1 / 2 ^ 60
   \<and> dot (1, 1 / 2 ^ 30, 0) (cross (1, 0, 0) (cross (1, 0, 0) (1, 1 / 2 ^ 30, 0))) = - (1 / 2 ^ 60)
   \<and> \<bar>1 / 2 ^ 60\<bar> < (1 / 10 ^ 15 :: real)
   \<and> pair_candidate 1 (0, 0, 0) (1, 0, 0) (1, 0, 0) (1, 1 / 2 ^ 30, 0) = Some (1, 0, 0)
   \<and> process_chunk [0, 1] [(0, 0, 0), (1, 0, 0)] [(1, 0, 0), (1, 1 / 2 ^ 30, 0)] 1
       = Inr [(1, 0, 0)]"
proof -
  have d1: "dot (1, 0, 0) (cross (1, 1 / 2 ^ 30, 0) (cross (1, 0, 0) (1, 1 / 2 ^ 30, 0)))
              = 1 / 2 ^ 60"
    by simp
  have d2: "dot (1, 1 / 2 ^ 30, 0) (cross (1, 0, 0) (cross (1, 0, 0) (1, 1 / 2 ^ 30, 0)))
              = - (1 / 2 ^ 60)"
    by simp
  have small: "\<bar>1 / 2 ^ 60\<bar> < (1 / 10 ^ 15 :: real)" by simp
  have cl: "closest_point_between_lines (0, 0, 0) (1, 0, 0) (1, 0, 0) (1, 1 / 2 ^ 30, 0)
              = Some ((1, 0, 0), 0)"
    by (simp add: closest_point_between_lines_def np_div_def Let_def)
  have pc: "pair_candidate 1 (0, 0, 0) (1, 0, 0) (1, 0, 0) (1, 1 / 2 ^ 30, 0) = Some (1, 0, 0)"
    using cl by (simp add: pair_candidate_def)
  have "[Suc 0 ..< 2] = [Suc 0]" by (simp add: upt_rec)
  with pc have "process_chunk [0, 1] [(0, 0, 0), (1, 0, 0)] [(1, 0, 0), (1, 1 / 2 ^ 30, 0)] 1
       = Inr [(1, 0, 0)]"
    by (simp add: process_chunk_def)
  with d1 d2 small pc show ?thesis by blast
qed

subsection \<open>The number of candidate points\<close>

lemma inner_loop_length:
  "inner_loop cs ns md p1 v1 js acc = Inr r \<Longrightarrow> length r \<le> length acc + length js"
proof (induction js arbitrary: acc)
  case Nil
  then show ?case by simp
next
  case (Cons j js)
  from Cons.prems have inb: "j < length cs \<and> j < length ns"
    by (auto split: if_splits)
  show ?case
  proof (cases "pair_candidate md p1 v1 (cs ! j) (ns ! j)")
    case None
    with Cons.prems inb have "inner_loop cs ns md p1 v1 js acc = Inr r" by simp
    from Cons.IH [OF this] show ?thesis by simp
  next
    case (Some pt)
    with Cons.prems inb have "inner_loop cs ns md p1 v1 js (acc @ [pt]) = Inr r" by simp
    from Cons.IH [OF this] show ?thesis by simp
  qed
qed

lemma outer_loop_length:
  "outer_loop cs ns md chunk acc = Inr r \<Longrightarrow>
     length r \<le> length acc + sum_list (map (\<lambda>i. length cs - Suc i) chunk)"
proof (induction chunk arbitrary: acc)
  case Nil
  then show ?case by simp
next
  case (Cons i chunk)
  from Cons.prems have inb: "i < length cs \<and> i < length ns"
    by (auto split: if_splits)
  with Cons.prems obtain acc' where
    inner: "inner_loop cs ns md (cs ! i) (ns ! i) [i + 1 ..< length cs] acc = Inr acc'"
    and rest: "outer_loop cs ns md chunk acc' = Inr r"
    by (auto split: sum.splits)
  from inner_loop_length [OF inner] have "length acc' \<le> length acc + (length cs - Suc i)"
    by simp
  with Cons.IH [OF rest] show ?case by simp
qed

lemma process_chunk_length:
  "process_chunk chunk cs ns md = Inr r \<Longrightarrow>
     length r \<le> sum_list (map (\<lambda>i. length cs - Suc i) chunk)"
  using outer_loop_length [of cs ns md chunk "[]" r] by (simp add: process_chunk_def)

lemma vnorm_nonneg: "0 \<le> vnorm v"
  by (cases v) simp

lemma closest_point_distance_nonneg:
  "closest_point_between_lines p1 v1 p2 v2 = Some (pt, d) \<Longrightarrow> 0 \<le> d"
  by (auto simp: closest_point_between_lines_def Let_def vnorm_nonneg
      split: option.splits prod.splits)

lemma pair_candidate_zero: "pair_candidate 0 p1 v1 p2 v2 = None"
proof (cases "closest_point_between_lines p1 v1 p2 v2")
  case None
  then show ?thesis by (simp add: pair_candidate_def)
next
  case (Some a)
  obtain pt d where a: "a = (pt, d)" by (cases a) auto
  from closest_point_distance_nonneg Some a have "\<not> d < 0" by fastforce
  with Some a show ?thesis by (simp add: pair_candidate_def)
qed

lemma inner_loop_zero: "inner_loop cs ns 0 p1 v1 js acc = Inr r \<Longrightarrow> r = acc"
  by (induction js) (auto simp: pair_candidate_zero split: if_splits)

lemma outer_loop_zero: "outer_loop cs ns 0 chunk acc = Inr r \<Longrightarrow> r = acc"
proof (induction chunk arbitrary: acc)
  case Nil
  then show ?case by simp
next
  case (Cons i chunk)
  from Cons.prems obtain acc' where
    inner: "inner_loop cs ns 0 (cs ! i) (ns ! i) [i + 1 ..< length cs] acc = Inr acc'"
    and rest: "outer_loop cs ns 0 chunk acc' = Inr r"
    by (auto split: sum.splits if_splits)
  from inner_loop_zero [OF inner] Cons.IH [OF rest] show ?case by simp
qed

lemma process_chunk_zero: "process_chunk chunk cs ns 0 = Inr r \<Longrightarrow> r = []"
  using outer_loop_zero [of cs ns chunk "[]" r] by (simp add: process_chunk_def)

lemma pool_map_all2:
  "pool_map f xs = Inr ys \<Longrightarrow> list_all2 (\<lambda>x y. f x = Inr y) xs ys"
proof (induction xs arbitrary: ys)
  case Nil
  then show ?case by simp
next
  case (Cons x xs)
  from Cons.prems obtain y ys' where "f x = Inr y" "pool_map f xs = Inr ys'" "ys = y # ys'"
    by (auto split: sum.splits)
  with Cons.IH show ?case by simp
qed

lemma concat_chunks_upto:
  "concat (map (\<lambda>k. [k * c ..< min (k * c + c) n]) [0 ..< m]) = [0 ..< min (m * c) n]"
proof (induction m)
  case 0
  then show ?case by simp
next
  case (Suc m)
  have "[0 ..< min (m * c) n] @ [m * c ..< min (m * c + c) n] = [0 ..< min (Suc m * c) n]"
  proof (cases "m * c \<le> n")
    case True
    then have "min (m * c) n = m * c" by simp
    moreover have "m * c \<le> min (m * c + c) n" using True by simp
    then have "[0 ..< m * c] @ [m * c ..< min (m * c + c) n] = [0 ..< min (m * c + c) n]"
      by (metis le0 upt_add_eq_append le_Suc_ex)
    ultimately show ?thesis by (simp add: add.commute)
  next
    case False
    then show ?thesis by simp
  qed
  with Suc.IH show ?case by simp
qed

lemma make_chunks_concat:
  assumes "make_chunks n num_processes = Inr chunks"
  shows "concat chunks = [0 ..< n]"
proof -
  define c where "c = n div num_processes"
  from assms have c: "0 < c"
    and chunks: "chunks = map (\<lambda>i. [i ..< min (i + c) n]) (range_step 0 n c)"
    by (auto simp: make_chunks_def Let_def c_def split: if_splits)
  have "chunks = map (\<lambda>k. [k * c ..< min (k * c + c) n]) [0 ..< (n + c - 1) div c]"
    by (simp add: chunks range_step_def comp_def)
  then have "concat chunks = [0 ..< min ((n + c - 1) div c * c) n]"
    by (simp only: concat_chunks_upto)
  moreover have "n \<le> (n + c - 1) div c * c"
  proof -
    have "n + c - 1 = (n + c - 1) div c * c + (n + c - 1) mod c" by simp
    moreover have "(n + c - 1) mod c < c" using c by simp
    ultimately show ?thesis by linarith
  qed
  ultimately show ?thesis by simp
qed

lemma pair_sum_upto:
  "k \<le> n \<Longrightarrow> 2 * sum_list (map (\<lambda>i. n - Suc i) [0 ..< k]) + k * (k + 1) = 2 * k * n"
proof (induction k)
  case 0
  then show ?case by simp
next
  case (Suc k)
  then have "2 * sum_list (map (\<lambda>i. n - Suc i) [0 ..< k]) + k * (k + 1) = 2 * k * n"
    and "Suc k \<le> n" by simp_all
  then show ?case by (simp add: algebra_simps)
qed

lemma pair_sum: "sum_list (map (\<lambda>i. n - Suc i) [0 ..< n]) = n * (n - 1) div 2"
proof -
  from pair_sum_upto [of n n]
  have "2 * sum_list (map (\<lambda>i. n - Suc i) [0 ..< n]) + n * (n + 1) = 2 * n * n" by simp
  moreover have "n * (n + 1) = n * (n - 1) + 2 * n" by (cases n) simp_all
  ultimately have "2 * sum_list (map (\<lambda>i. n - Suc i) [0 ..< n]) = n * (n - 1)" by simp
  then show ?thesis by (metis nonzero_mult_div_cancel_left zero_neq_numeral)
qed

lemma candidate_count_all2:
  "list_all2 (\<lambda>chunk r. length r \<le> sum_list (map g chunk)) chunks results \<Longrightarrow>
     candidate_count results \<le> sum_list (map g (concat chunks))"
  unfolding candidate_count_def
  by (induction chunks results rule: list_all2_induct) auto

lemma candidate_count_empty:
  "list_all2 (\<lambda>chunk r. r = []) chunks results \<Longrightarrow> candidate_count results = 0"
  unfolding candidate_count_def
  by (induction chunks results rule: list_all2_induct) auto

lemma point_rows_atleast_2d: "length (point_rows (atleast_2d pts)) = length pts"
proof (cases "pts = []")
  case True
  then show ?thesis by (simp add: point_rows_def atleast_2d_def)
next
  case False
  have "filter (\<lambda>row. length row = 3) (map (\<lambda>(x, y, z). [x, y, z]) pts)
          = map (\<lambda>(x, y, z). [x, y, z]) pts"
    by (rule filter_True) auto
  with False show ?thesis by (simp add: point_rows_def atleast_2d_def)
qed

lemma point_rows_append: "point_rows (a @ b) = point_rows a @ point_rows b"
  by (simp add: point_rows_def)

lemma point_rows_stacked:
  "length (point_rows (concat (map atleast_2d results))) = candidate_count results"
  by (induction results)
    (simp_all add: candidate_count_def point_rows_append point_rows_atleast_2d,
     simp add: point_rows_def)

lemma np_vstack_point_rows:
  assumes "np_vstack results = Inr center_points"
  shows "length (point_rows center_points) = candidate_count results"
proof -
  from assms have "center_points = concat (map atleast_2d results)"
    by (auto simp: np_vstack_def Let_def split: if_splits)
  then show ?thesis by (simp only: point_rows_stacked)
qed

text \<open>
  C3. When the pairwise search over \<open>n\<close> sampled facets returns, the chunks together
  hold at most \<open>n * (n - 1) div 2\<close> candidate points, and none at all when
  \<^verbatim>\<open>max_distance\<close> is zero. When \<^verbatim>\<open>np.vstack\<close> accepts the chunk results, the
  stacked array holds exactly that many points.
\<close>

theorem candidate_count_bound:
  assumes "intersection_search num_processes facet_centroids facet_normals max_distance
             = Inr results"
  shows "candidate_count results
           \<le> length facet_centroids * (length facet_centroids - 1) div 2
       \<and> (max_distance = 0 \<longrightarrow> candidate_count results = 0)
       \<and> (np_vstack results = Inr center_points \<longrightarrow>
            length (point_rows center_points) = candidate_count results)"
proof -
  let ?n = "length facet_centroids"
  from assms obtain chunks where
    chunks: "make_chunks ?n num_processes = Inr chunks"
    and run: "pool_map (\<lambda>chunk. process_chunk chunk facet_centroids facet_normals max_distance)
                chunks = Inr results"
    by (auto simp: intersection_search_def split: sum.splits)
  note all = pool_map_all2 [OF run]
  have "list_all2 (\<lambda>chunk r. length r \<le> sum_list (map (\<lambda>i. ?n - Suc i) chunk)) chunks results"
    by (rule list_all2_mono [OF all]) (rule process_chunk_length)
  from candidate_count_all2 [OF this]
  have bound: "candidate_count results \<le> ?n * (?n - 1) div 2"
    by (simp add: make_chunks_concat [OF chunks] pair_sum)
  have "candidate_count results = 0" if "max_distance = 0"
  proof -
    have "list_all2 (\<lambda>chunk r. r = []) chunks results"
      by (rule list_all2_mono [OF all]) (use that process_chunk_zero in blast)
    then show ?thesis by (rule candidate_count_empty)
  qed
  with bound np_vstack_point_rows show ?thesis by blast
qed

theorem candidate_count_bound_witness:
  "intersection_search 1 [(0, 0, 0), (0, 1, 0)] [(1, 0, 0), (0, 1, 0)] 1 = Inr [[(0, 0, 0)]]
   \<and> candidate_count [[(0, 0, 0)]] \<le> length [(0, 0, 0), (0, 1, 0 :: real)] * (2 - 1) div 2
   \<and> np_vstack [[(0, 0, 0)]] = Inr [[0, 0, 0]]
   \<and> length (point_rows [[0, 0, 0]]) = candidate_count [[(0, 0, 0)]]
   \<and> intersection_search 1 [(0, 0, 0), (0, 1, 0)] [(1, 0, 0), (0, 1, 0)] 0 = Inr [[]]
   \<and> candidate_count ([[]] :: vec3 list list) = 0
   \<and> np_vstack [[]] = Inr [[]]
   \<and> length (point_rows [[]]) = candidate_count ([[]] :: vec3 list list)"
proof -
  have u1: "[0 ..< Suc 0] = [0]" and u2: "[0 ..< 2] = [0, Suc 0]" and u3: "[Suc 0 ..< 2] = [Suc 0]"
    by (simp_all add: upt_rec)
  have "make_chunks 2 1 = Inr [[0, Suc 0]]"
    by (simp add: make_chunks_def range_step_def u1 u2)
  then have ch: "make_chunks (Suc (Suc 0)) (Suc 0) = Inr [[0, Suc 0]]"
    by (simp add: numeral_2_eq_2)
  have cl: "closest_point_between_lines (0, 0, 0) (1, 0, 0) (0, 1, 0) (0, 1, 0)
              = Some ((0, 0, 0), 0)"
    by (simp add: closest_point_between_lines_def np_div_def Let_def)
  have pc1: "pair_candidate 1 (0, 0, 0) (1, 0, 0) (0, 1, 0) (0, 1, 0) = Some (0, 0, 0)"
    using cl by (simp add: pair_candidate_def)
  have pc0: "pair_candidate 0 (0, 0, 0) (1, 0, 0) (0, 1, 0) (0, 1, 0) = None"
    by (rule pair_candidate_zero)
  have r1: "intersection_search 1 [(0, 0, 0), (0, 1, 0)] [(1, 0, 0), (0, 1, 0)] 1
              = Inr [[(0, 0, 0)]]"
    using pc1 by (simp add: intersection_search_def ch process_chunk_def u3)
  have r0: "intersection_search 1 [(0, 0, 0), (0, 1, 0)] [(1, 0, 0), (0, 1, 0)] 0 = Inr [[]]"
    using pc0 by (simp add: intersection_search_def ch process_chunk_def u3)
  have v1: "np_vstack [[(0, 0, 0)]] = Inr [[0, 0, 0]]"
    and v0: "np_vstack [[]] = Inr [[]]"
    by (simp_all add: np_vstack_def atleast_2d_def)
  from candidate_count_bound [OF r1, of "[[0, 0, 0]]"]
       candidate_count_bound [OF r0, of "[[]]"] r1 r0 v1 v0
  show ?thesis by simp
qed

subsection \<open>Sampling with a non-positive sample size\<close>

lemma make_chunks_empty: "0 < num_processes \<Longrightarrow> make_chunks 0 num_processes = Inl ValueError"
  by (simp add: make_chunks_def)

lemma sample_facets_negative:
  assumes "sample_size < 0"
  shows "sample_facets permutation m sample_size = Inl ValueError"
  using assms by (simp add: sample_facets_def random_choice_def Let_def)

lemma sample_facets_zero:
  "\<exists>facet_normals. sample_facets permutation m 0 = Inr (facet_normals, [])"
  by (cases "triangles_center m = []")
    (simp_all add: sample_facets_def random_choice_def take_rows_def Let_def)

text \<open>
  C4 (as the code has it). The code does not validate \<^verbatim>\<open>sample_size\<close> and has no
  ConfigurationError. A call of \<^verbatim>\<open>extract_centerline\<close> with \<open>sample_size \<le> 0\<close> fails
  with ValueError: for a negative size the sampling call raises it; for size zero the
  sampling succeeds with an empty facet set and the chunking that follows raises it
  (a range with step zero).
\<close>

theorem extract_centerline_nonpositive_sample_size:
  assumes "sample_size \<le> 0" and "0 < num_processes"
  shows "extract_centerline permutation num_processes principal_axes argsort m max_distance
           sample_size = Inl ValueError
       \<and> (sample_size < 0 \<longrightarrow> sample_facets permutation m sample_size = Inl ValueError)
       \<and> (sample_size = 0 \<longrightarrow>
            (\<exists>facet_normals. sample_facets permutation m sample_size = Inr (facet_normals, [])))"
proof (cases "sample_size < 0")
  case True
  with sample_facets_negative [OF True] show ?thesis
    by (simp add: extract_centerline_def)
next
  case False
  with assms(1) have z: "sample_size = 0" by simp
  obtain facet_normals where s: "sample_facets permutation m 0 = Inr (facet_normals, [])"
    using sample_facets_zero by blast
  have "intersection_search num_processes [] facet_normals max_distance = Inl ValueError"
    by (simp add: intersection_search_def make_chunks_empty [OF assms(2)])
  with s z show ?thesis by (simp add: extract_centerline_def)
qed

theorem extract_centerline_nonpositive_sample_size_witness:
  "(0::int) \<le> 0 \<and> (0::nat) < 4
   \<and> extract_centerline (\<lambda>a. [0 ..< a]) 4 (\<lambda>rows. Inl LibraryError) (\<lambda>keys. [])
        \<lparr> face_normals = [(1, 0, 0), (0, 1, 0)], triangles_center = [(0, 0, 0), (0, 1, 0)] \<rparr>
        1 0 = Inl ValueError
   \<and> (0::int) - 3 \<le> 0
   \<and> extract_centerline (\<lambda>a. [0 ..< a]) 4 (\<lambda>rows. Inl LibraryError) (\<lambda>keys. [])
        \<lparr> face_normals = [(1, 0, 0), (0, 1, 0)], triangles_center = [(0, 0, 0), (0, 1, 0)] \<rparr>
        1 (0 - 3) = Inl ValueError"
proof -
  have a: "(0::int) \<le> 0" and b: "(0::int) - 3 \<le> 0" and c: "(0::nat) < 4" by simp_all
  from extract_centerline_nonpositive_sample_size [OF a c]
       extract_centerline_nonpositive_sample_size [OF b c] a b c
  show ?thesis by blast
qed

theorem sample_size_zero_no_configuration_error:
  "sample_facets (\<lambda>a. [0 ..< a])
       \<lparr> face_normals = [(1, 0, 0), (0, 1, 0)], triangles_center = [(0, 0, 0), (0, 1, 0)] \<rparr> 0
     = Inr ([], [])
   \<and> extract_centerline (\<lambda>a. [0 ..< a]) 4 (\<lambda>rows. Inl LibraryError) (\<lambda>keys. [])
        \<lparr> face_normals = [(1, 0, 0), (0, 1, 0)], triangles_center = [(0, 0, 0), (0, 1, 0)] \<rparr>
        1 0 = Inl ValueError
   \<and> extract_centerline (\<lambda>a. [0 ..< a]) 4 (\<lambda>rows. Inl LibraryError) (\<lambda>keys. [])
        \<lparr> face_normals = [(1, 0, 0), (0, 1, 0)], triangles_center = [(0, 0, 0), (0, 1, 0)] \<rparr>
        1 0 \<noteq> Inl ConfigurationError"
proof -
  have s: "sample_facets (\<lambda>a. [0 ..< a])
       \<lparr> face_normals = [(1, 0, 0), (0, 1, 0)], triangles_center = [(0, 0, 0), (0, 1, 0)] \<rparr> 0
     = Inr ([], [])"
    by (simp add: sample_facets_def random_choice_def take_rows_def Let_def)
  then have "extract_centerline (\<lambda>a. [0 ..< a]) 4 (\<lambda>rows. Inl LibraryError) (\<lambda>keys. [])
        \<lparr> face_normals = [(1, 0, 0), (0, 1, 0)], triangles_center = [(0, 0, 0), (0, 1, 0)] \<rparr>
        1 0 = Inl ValueError"
    by (simp add: extract_centerline_def intersection_search_def make_chunks_def)
  with s show ?thesis by simp
qed

subsection \<open>Deduplication\<close>

lemma rint_of_int: "rint (of_int k) = k"
  by (simp add: rint_def)

lemma round5_idem: "round5 (round5 x) = round5 x"
  by (simp add: round5_def rint_of_int)

lemma np_unique_rows_idem: "np_unique_rows (np_unique_rows rows) = np_unique_rows rows"
proof -
  have "sorted (remdups_adj (sort rows))"
    by (simp add: sorted_remdups_adj)
  then have "sort (remdups_adj (sort rows)) = remdups_adj (sort rows)"
    by (rule sorted_sort_id)
  moreover have "remdups_adj (remdups_adj (sort rows)) = remdups_adj (sort rows)"
    by (simp flip: distinct_adj_altdef)
  ultimately show ?thesis by (simp add: np_unique_rows_def)
qed

lemma set_np_unique_rows: "set (np_unique_rows rows) = set rows"
  by (simp add: np_unique_rows_def)

lemma round5_rows_fixed:
  "map (map round5) (np_unique_rows (map (map round5) rows))
     = np_unique_rows (map (map round5) rows)"
proof (rule map_idI)
  fix r
  assume "r \<in> set (np_unique_rows (map (map round5) rows))"
  then obtain r0 where "r = map round5 r0"
    by (auto simp: set_np_unique_rows)
  then show "map round5 r = r"
    by (simp add: round5_idem)
qed

text \<open>
  C5. Deduplication, which rounds every coordinate to five decimals and keeps each
  rounded row once, is idempotent.
\<close>

theorem dedup_idempotent: "dedup (dedup S) = dedup S"
proof -
  let ?R = "map (map round5) S"
  have "dedup (dedup S) = np_unique_rows (map (map round5) (np_unique_rows ?R))"
    by (simp only: dedup_def)
  also have "map (map round5) (np_unique_rows ?R) = np_unique_rows ?R"
    by (rule round5_rows_fixed)
  also have "np_unique_rows (np_unique_rows ?R) = np_unique_rows ?R"
    by (rule np_unique_rows_idem)
  also have "np_unique_rows ?R = dedup S"
    by (simp only: dedup_def)
  finally show ?thesis .
qed

subsection \<open>Independence of the arrival order\<close>

lemma dedup_mset:
  assumes "mset xs = mset ys"
  shows "dedup xs = dedup ys"
proof -
  from assms have "mset (map (map round5) xs) = mset (map (map round5) ys)"
    by (metis mset_map)
  then have "mset (sort (map (map round5) ys)) = mset (map (map round5) xs)"
    by simp
  then have "sort (map (map round5) xs) = sort (map (map round5) ys)"
    by (rule properties_for_sort) simp
  then show ?thesis by (simp add: dedup_def np_unique_rows_def)
qed

text \<open>
  C9. Two arrays of candidate points that are permutations of each other have the same
  deduplicated array, and so the same ordered centerline and the same wire diameter
  (or the same failure).
\<close>

theorem order_centerline_permutation_invariant:
  assumes "mset xs = mset ys"
  shows "dedup xs = dedup ys
       \<and> order_centerline principal_axes argsort xs = order_centerline principal_axes argsort ys"
proof
  show d: "dedup xs = dedup ys"
    using assms by (rule dedup_mset)
  show "order_centerline principal_axes argsort xs = order_centerline principal_axes argsort ys"
    unfolding order_centerline_def d ..
qed

theorem order_centerline_permutation_invariant_witness:
  "mset [[2, 0, 0], [0, 0, 0], [1, 0, 0 :: real]] = mset [[0, 0, 0], [1, 0, 0], [2, 0, 0]]
   \<and> dedup [[2, 0, 0], [0, 0, 0], [1, 0, 0]] = dedup [[0, 0, 0], [1, 0, 0], [2, 0, 0]]
   \<and> order_centerline (\<lambda>rows. Inr [[1, 0, 0]]) (\<lambda>keys. [0 ..< length keys])
        [[2, 0, 0], [0, 0, 0], [1, 0, 0]]
     = order_centerline (\<lambda>rows. Inr [[1, 0, 0]]) (\<lambda>keys. [0 ..< length keys])
        [[0, 0, 0], [1, 0, 0], [2, 0, 0]]"
proof -
  have m: "mset [[2, 0, 0], [0, 0, 0], [1, 0, 0 :: real]] = mset [[0, 0, 0], [1, 0, 0], [2, 0, 0]]"
    by simp
  from order_centerline_permutation_invariant [OF m] m show ?thesis by blast
qed

lemma rint_examples: "rint 0 = 0" "rint 100000 = 100000" "rint 200000 = 200000" "rint (1 / 10) = 0"
  by (simp_all add: rint_def)

lemma order_centerline_example:
  "order_centerline (\<lambda>rows. Inr [[1, 0, 0]]) (\<lambda>keys. [0 ..< length keys])
        [[2, 0, 0], [0, 0, 0], [1, 0, 0], [1 / 1000000, 0, 0]]
     = Inr ([[0, 0, 0], [1, 0, 0], [2, 0, 0]], Some 1)"
proof -
  have d: "dedup [[2, 0, 0], [0, 0, 0], [1, 0, 0], [1 / 1000000, 0, 0]]
             = [[0, 0, 0], [1, 0, 0], [2, 0, 0]]"
    by (simp add: dedup_def np_unique_rows_def round5_def rint_examples)
  have u: "[0 ..< 3] = [0, 1, 2]" by (simp add: upt_rec)
  show ?thesis
    by (simp add: order_centerline_def d np_dot_def ncols_def col_means_def take_rows_def
        np_diff_def row_norm_def np_median_def u)
qed

end
